theory Spec2Isabelle
  imports Main "HOL-Library.Sublist"
begin

section \<open>Python values, dictionaries and exceptions\<close>

text \<open>
  The module \<^verbatim>\<open>cinder/volume/flows/common.py\<close> handles dynamically typed values: the
  entries of the \<^verbatim>\<open>details\<close> mapping of a notification, a volume id, a reason.  A value is
  \<^verbatim>\<open>None\<close>, a text, a \<^verbatim>\<open>misc.Failure\<close>, or an object of any other type.  The module only ever converts such values to text
  (\<^verbatim>\<open>six.text_type\<close>, the \<^verbatim>\<open>%s\<close> conversion), compares them, and asks whether they are
  a \<^verbatim>\<open>Failure\<close>; so an object of another type is represented by its text conversion, and
  a \<^verbatim>\<open>Failure\<close> carries its text conversion next to its attribute \<^verbatim>\<open>exc_info\<close>.  That
  attribute is the triple of exception type, value and traceback, or \<^verbatim>\<open>None\<close>: a
  \<^verbatim>\<open>Failure\<close> rebuilt from its dict form (\<^verbatim>\<open>Failure.from_dict\<close>) has no \<^verbatim>\<open>exc_info\<close>.
\<close>

type_synonym exc_info = "string \<times> string \<times> string"

datatype pyval =
    PyNone
  | PyStr string
  | PyObj string
  | Failure "exc_info option" string

text \<open>\<^verbatim>\<open>six.text_type(v)\<close>, which is also what \<^verbatim>\<open>'%s' % v\<close> renders.\<close>

fun text_type :: "pyval \<Rightarrow> string" where
  "text_type PyNone = ''None''"
| "text_type (PyStr s) = s"
| "text_type (PyObj t) = t"
| "text_type (Failure ei t) = t"

text \<open>\<^verbatim>\<open>isinstance(v, misc.Failure)\<close>.\<close>

fun isinstance_Failure :: "pyval \<Rightarrow> bool" where
  "isinstance_Failure (Failure ei t) = True"
| "isinstance_Failure v = False"

text \<open>
  A \<^verbatim>\<open>dict\<close> with text keys is an association list, looked up with \<^const>\<open>map_of\<close>; the
  empty dict is the empty list.
\<close>

type_synonym dict = "(string \<times> pyval) list"

text \<open>
  The exceptions that can travel through this module.  \<open>CinderException\<close> stands for an
  instance of \<^verbatim>\<open>exception.CinderException\<close> or of one of its subclasses, \<open>OtherError\<close> for
  an instance of any class outside that hierarchy.
\<close>

datatype exn =
    KeyError string
  | AttributeError string
  | TypeError string
  | CinderException string
  | OtherError string

text \<open>What \<^verbatim>\<open>except exception.CinderException\<close> matches.\<close>

fun is_CinderException :: "exn \<Rightarrow> bool" where
  "is_CinderException (CinderException m) = True"
| "is_CinderException e = False"


text \<open>\<^verbatim>\<open>d[k]\<close> raises \<^verbatim>\<open>KeyError\<close> on a missing key; \<^verbatim>\<open>d.get(k)\<close> gives \<^verbatim>\<open>None\<close> instead.\<close>

definition getitem :: "dict \<Rightarrow> string \<Rightarrow> exn + pyval" where
  "getitem d k = (case map_of d k of None \<Rightarrow> Inl (KeyError k) | Some v \<Rightarrow> Inr v)"

definition dict_get :: "dict \<Rightarrow> string \<Rightarrow> pyval" where
  "dict_get d k = (case map_of d k of None \<Rightarrow> PyNone | Some v \<Rightarrow> v)"

text \<open>\<^verbatim>\<open>k in d\<close>.\<close>

definition contains :: "dict \<Rightarrow> string \<Rightarrow> bool" where
  "contains d k = (map_of d k \<noteq> None)"

text \<open>The rendering of \<^verbatim>\<open>'%s'\<close> inside a template: the text between two apostrophes.\<close>

definition quoted :: "string \<Rightarrow> string" where
  "quoted s = CHR 0x27 # s @ [CHR 0x27]"

text \<open>
  \<^verbatim>\<open>tuple(x)\<close> for the \<^verbatim>\<open>exc_info\<close> attribute of a \<^verbatim>\<open>Failure\<close>: the triple itself, and on
  \<^verbatim>\<open>None\<close>, which is not iterable, the \<^verbatim>\<open>TypeError\<close> with Python's message
  \<^verbatim>\<open>'NoneType' object is not iterable\<close>.
\<close>

definition tuple_of :: "exc_info option \<Rightarrow> exn + exc_info" where
  "tuple_of x =
     (case x of
        None \<Rightarrow> Inl (TypeError (quoted ''NoneType'' @ '' object is not iterable''))
      | Some ei \<Rightarrow> Inr ei)"

section \<open>Logging\<close>

text \<open>
  The severities of Python's \<^verbatim>\<open>logging\<close> module.  \<^verbatim>\<open>Logger.exception\<close> emits at \<open>ERROR\<close>
  with the exception being handled attached.
\<close>

definition DEBUG :: int where "DEBUG = 10"
definition WARNING :: int where "WARNING = 30"
definition ERROR :: int where "ERROR = 40"

text \<open>
  What a record carries beside its text: nothing, an explicit \<^verbatim>\<open>exc_info=\<close> argument, or
  the exception being handled (\<^verbatim>\<open>Logger.exception\<close>).
\<close>

datatype attached = NoExcInfo | ExcInfo exc_info | Handled exn

record log_record =
  level :: int
  message :: string
  exc :: attached

text \<open>
  A logger answers \<^verbatim>\<open>isEnabledFor\<close> and collects the records handed to it, oldest first.
\<close>

record logger =
  isEnabledFor :: "int \<Rightarrow> bool"
  emitted :: "log_record list"

definition logger_log :: "logger \<Rightarrow> int \<Rightarrow> string \<Rightarrow> logger" where
  "logger_log lg lvl msg =
     lg\<lparr>emitted := emitted lg @ [\<lparr>level = lvl, message = msg, exc = NoExcInfo\<rparr>]\<rparr>"

definition logger_warn :: "logger \<Rightarrow> string \<Rightarrow> exc_info \<Rightarrow> logger" where
  "logger_warn lg msg ei =
     lg\<lparr>emitted := emitted lg @ [\<lparr>level = WARNING, message = msg, exc = ExcInfo ei\<rparr>]\<rparr>"

section \<open>Reason truncation\<close>

definition REASON_LENGTH :: nat where "REASON_LENGTH = 128"

text \<open>
  \<^verbatim>\<open>_clean_reason\<close>, the local function of \<^verbatim>\<open>error_out_volume\<close>.
\<close>

definition clean_reason :: "pyval \<Rightarrow> string" where
  "clean_reason reason =
     (if reason = PyNone then ''???''
      else let reason' = text_type reason in
           if length reason' \<le> REASON_LENGTH then reason'
           else take REASON_LENGTH reason' @ ''...'')"

section \<open>The transition listener\<close>

text \<open>
  The state tags of \<^verbatim>\<open>taskflow.states\<close> are texts, each the text of its own name; the
  listener compares them with \<^verbatim>\<open>==\<close> and renders them with \<^verbatim>\<open>%s\<close>.
\<close>

definition RUNNING :: string where "RUNNING = ''RUNNING''"
definition SUCCESS :: string where "SUCCESS = ''SUCCESS''"
definition FAILURE :: string where "FAILURE = ''FAILURE''"
definition REVERTING :: string where "REVERTING = ''REVERTING''"
definition REVERTED :: string where "REVERTED = ''REVERTED''"
definition RETRYING :: string where "RETRYING = ''RETRYING''"

text \<open>
  \<^verbatim>\<open>_flow_receiver(self, state, details)\<close>.  The logger argument is \<^verbatim>\<open>self._logger\<close>; the
  result is the exception raised, if any, and the logger afterwards.  The template is
  \<^verbatim>\<open>"Flow '%(flow_name)s' (%(flow_uuid)s) transitioned into state '%(state)s' from state '%(old_state)s'"\<close>;
  its arguments are evaluated in the order of the dict display, before the logger is
  called.
\<close>

definition flow_receiver :: "logger \<Rightarrow> string \<Rightarrow> dict \<Rightarrow> exn option \<times> logger" where
  "flow_receiver lg state details =
     (let lvl = (if state \<in> set [FAILURE, REVERTED] then WARNING else DEBUG) in
      case getitem details ''flow_name'' of
        Inl e \<Rightarrow> (Some e, lg)
      | Inr flow_name \<Rightarrow>
          (case getitem details ''flow_uuid'' of
             Inl e \<Rightarrow> (Some e, lg)
           | Inr flow_uuid \<Rightarrow>
               (None, logger_log lg lvl
                  (''Flow '' @ quoted (text_type flow_name)
                   @ '' ('' @ text_type flow_uuid
                   @ '') transitioned into state '' @ quoted state
                   @ '' from state '' @ quoted (text_type (dict_get details ''old_state''))))))"

text \<open>
  The template \<^verbatim>\<open>"Task '%(task_name)s' (%(task_uuid)s) transitioned into state '%(state)s'"\<close>
  applied to \<^verbatim>\<open>details['task_name']\<close>, \<^verbatim>\<open>details['task_uuid']\<close> and \<^verbatim>\<open>state\<close>; the source
  writes it out three times.  A missing key raises while the arguments are evaluated.
\<close>

definition task_transitioned :: "dict \<Rightarrow> string \<Rightarrow> exn + string" where
  "task_transitioned details state =
     (case getitem details ''task_name'' of
        Inl e \<Rightarrow> Inl e
      | Inr task_name \<Rightarrow>
          (case getitem details ''task_uuid'' of
             Inl e \<Rightarrow> Inl e
           | Inr task_uuid \<Rightarrow>
               Inr (''Task '' @ quoted (text_type task_name)
                    @ '' ('' @ text_type task_uuid
                    @ '') transitioned into state '' @ quoted state)))"

text \<open>The same template followed by \<^verbatim>\<open>" with result %(result)s"\<close>.\<close>

definition task_transitioned_with_result :: "dict \<Rightarrow> string \<Rightarrow> pyval \<Rightarrow> exn + string" where
  "task_transitioned_with_result details state result =
     (case task_transitioned details state of
        Inl e \<Rightarrow> Inl e
      | Inr msg \<Rightarrow> Inr (msg @ '' with result '' @ text_type result))"

text \<open>
  \<^verbatim>\<open>_task_receiver(self, state, details)\<close>.  \<open>FINISH_STATES\<close> is the tuple
  \<^verbatim>\<open>base_listener.FINISH_STATES\<close> of the engine library, taken as a parameter.  In the
  \<^verbatim>\<open>Failure\<close> branch the arguments of \<^verbatim>\<open>self._logger.warn\<close> are evaluated from left to
  right: the message first, then \<^verbatim>\<open>tuple(result.exc_info)\<close>; an exception raised by either
  leaves the logger untouched.
\<close>

definition task_receiver ::
    "string list \<Rightarrow> logger \<Rightarrow> string \<Rightarrow> dict \<Rightarrow> exn option \<times> logger" where
  "task_receiver FINISH_STATES lg state details =
     (if contains details ''result'' \<and> state \<in> set FINISH_STATES then
        (let result = dict_get details ''result'' in
         case result of
           Failure exc_info t \<Rightarrow>
             (case task_transitioned details state of
                Inl e \<Rightarrow> (Some e, lg)
              | Inr msg \<Rightarrow>
                  (case tuple_of exc_info of
                     Inl e \<Rightarrow> (Some e, lg)
                   | Inr ei \<Rightarrow> (None, logger_warn lg msg ei)))
         | _ \<Rightarrow>
             (let lvl = (if state = FAILURE then WARNING else DEBUG) in
              if isEnabledFor lg DEBUG \<or> state = FAILURE then
                (case task_transitioned_with_result details state result of
                   Inl e \<Rightarrow> (Some e, lg)
                 | Inr msg \<Rightarrow> (None, logger_log lg lvl msg))
              else
                (case task_transitioned details state of
                   Inl e \<Rightarrow> (Some e, lg)
                 | Inr msg \<Rightarrow> (None, logger_log lg lvl msg))))
      else
        (let lvl = (if state \<in> set [REVERTING, RETRYING] then WARNING else DEBUG) in
         case task_transitioned details state of
           Inl e \<Rightarrow> (Some e, lg)
         | Inr msg \<Rightarrow> (None, logger_log lg lvl msg)))"

section \<open>Pretty names\<close>





section \<open>Status recovery\<close>

text \<open>
  The two helpers act on the module logger \<^verbatim>\<open>LOG\<close> and on the store \<^verbatim>\<open>db\<close>.  A call
  \<^verbatim>\<open>db.volume_update(context, volume_id, update)\<close> is recorded with its three arguments; the
  store answers a call by returning (\<open>None\<close>) or by raising an exception.
\<close>

type_synonym db_call = "pyval \<times> pyval \<times> dict"

type_synonym store = "db_call \<Rightarrow> exn option"

record world =
  LOG :: logger
  db_calls :: "db_call list"

definition LOG_debug :: "world \<Rightarrow> string \<Rightarrow> world" where
  "LOG_debug w msg = w\<lparr>LOG := logger_log (LOG w) DEBUG msg\<rparr>"

text \<open>\<^verbatim>\<open>LOG.exception(msg)\<close> inside an \<^verbatim>\<open>except\<close> block that handles \<open>e\<close>.\<close>

definition LOG_exception :: "world \<Rightarrow> string \<Rightarrow> exn \<Rightarrow> world" where
  "LOG_exception w msg e =
     w\<lparr>LOG := (LOG w)\<lparr>emitted := emitted (LOG w)
                   @ [\<lparr>level = ERROR, message = msg, exc = Handled e\<rparr>]\<rparr>\<rparr>"

definition volume_update :: "world \<Rightarrow> db_call \<Rightarrow> world" where
  "volume_update w c = w\<lparr>db_calls := db_calls w @ [c]\<rparr>"

text \<open>
  \<^verbatim>\<open>restore_source_status(context, db, volume_spec)\<close>; \<open>None\<close> is an absent
  \<^verbatim>\<open>volume_spec\<close>, and \<^verbatim>\<open>not volume_spec\<close> also holds of the empty dict.  The two
  subscriptions stand before the \<^verbatim>\<open>try\<close>.
\<close>

definition restore_source_status ::
    "pyval \<Rightarrow> store \<Rightarrow> dict option \<Rightarrow> world \<Rightarrow> exn option \<times> world" where
  "restore_source_status context db volume_spec w =
     (case volume_spec of
        None \<Rightarrow> (None, w)
      | Some spec \<Rightarrow>
          if spec = [] \<or> dict_get spec ''type'' \<noteq> PyStr ''source_vol'' then (None, w)
          else
            (case getitem spec ''source_volid'' of
               Inl e \<Rightarrow> (Some e, w)
             | Inr source_volid \<Rightarrow>
                 (case getitem spec ''source_volstatus'' of
                    Inl e \<Rightarrow> (Some e, w)
                  | Inr source_status \<Rightarrow>
                      (let w1 = LOG_debug w
                                  (''Restoring source '' @ text_type source_volid
                                   @ '' status to '' @ text_type source_status);
                           c = (context, source_volid, [(''status'', source_status)]);
                           w2 = volume_update w1 c
                       in case db c of
                            None \<Rightarrow> (None, w2)
                          | Some e \<Rightarrow>
                              if is_CinderException e then
                                (None, LOG_exception w2
                                   (''Failed setting source volume '' @ text_type source_volid
                                    @ '' back to its initial '' @ text_type source_status
                                    @ '' status'') e)
                              else (Some e, w2)))))"

text \<open>
  \<^verbatim>\<open>error_out_volume(context, db, volume_id, reason=None)\<close>.  The dict \<^verbatim>\<open>update\<close> is the
  constant \<^verbatim>\<open>{'status': 'error'}\<close>, and \<open>update_repr\<close> is what \<^verbatim>\<open>%(update)s\<close> renders of it.
\<close>

definition update_repr :: string where
  "update_repr = ''{'status': 'error'}''"

definition error_out_volume ::
    "pyval \<Rightarrow> store \<Rightarrow> pyval \<Rightarrow> pyval \<Rightarrow> world \<Rightarrow> exn option \<times> world" where
  "error_out_volume context db volume_id reason w =
     (let update = [(''status'', PyStr ''error'')];
          reason' = clean_reason reason;
          w1 = LOG_debug w
                 (''Updating volume: '' @ text_type volume_id
                  @ '' with '' @ update_repr @ '' due to: '' @ reason');
          c = (context, volume_id, update);
          w2 = volume_update w1 c
      in case db c of
           None \<Rightarrow> (None, w2)
         | Some e \<Rightarrow>
             if is_CinderException e then
               (None, LOG_exception w2
                  (''Failed updating volume '' @ text_type volume_id
                   @ '' with '' @ update_repr) e)
             else (Some e, w2))"

section \<open>Properties\<close>

subsection \<open>Reason truncation\<close>

text \<open>
  C5: \<^verbatim>\<open>_clean_reason\<close> maps \<^verbatim>\<open>None\<close> to \<^verbatim>\<open>"???"\<close>; a text of at most 128 characters is
  returned unchanged; a longer text is cut to its first 128 characters followed by
  \<^verbatim>\<open>"..."\<close>, which is a text of exactly 131 characters ending in \<^verbatim>\<open>"..."\<close>.  The function
  is total and returns nothing but the text.
\<close>

theorem clean_reason_spec:
  "clean_reason PyNone = ''???''
   \<and> (length r \<le> 128 \<longrightarrow> clean_reason (PyStr r) = r)
   \<and> (128 < length r \<longrightarrow>
        clean_reason (PyStr r) = take 128 r @ ''...''
        \<and> length (clean_reason (PyStr r)) = 131
        \<and> drop 128 (clean_reason (PyStr r)) = ''...'')"
  by (simp add: clean_reason_def REASON_LENGTH_def)

theorem clean_reason_spec_witness:
  "clean_reason PyNone = ''???''
   \<and> clean_reason (PyStr ''volume backend down'') = ''volume backend down''
   \<and> length (replicate 130 CHR ''x'') = 130
   \<and> clean_reason (PyStr (replicate 130 CHR ''x'')) = replicate 128 CHR ''x'' @ ''...''
   \<and> length (clean_reason (PyStr (replicate 130 CHR ''x''))) = 131"
  using clean_reason_spec [of "''volume backend down''"]
        clean_reason_spec [of "replicate 130 CHR ''x''"]
  by simp

subsection \<open>Auxiliary facts\<close>

lemma getitem_Some: "map_of d k = Some v \<Longrightarrow> getitem d k = Inr v"
  by (simp add: getitem_def)

lemma task_transitioned_Inr:
  assumes "map_of details ''task_name'' = Some n" and "map_of details ''task_uuid'' = Some u"
  shows "task_transitioned details state =
           Inr (''Task '' @ quoted (text_type n) @ '' ('' @ text_type u
                @ '') transitioned into state '' @ quoted state)"
  using assms by (simp add: task_transitioned_def getitem_Some)

subsection \<open>Task events\<close>

text \<open>
  C1: a task event whose details contain a result, whose state is in the finish-state
  subset and whose result is not a \<^verbatim>\<open>Failure\<close> emits one record, at \<open>WARNING\<close> if the
  state is \<open>FAILURE\<close> and at \<open>DEBUG\<close> otherwise; the text of the result follows the task
  name, uuid and state in the message exactly when \<^verbatim>\<open>isEnabledFor(DEBUG)\<close> answers true or
  the state is \<open>FAILURE\<close>, and otherwise the message is made of the task name, uuid and
  state only.
\<close>

theorem task_plain_result:
  assumes "map_of details ''result'' = Some r"
      and "state \<in> set FINISH_STATES"
      and "\<not> isinstance_Failure r"
      and "map_of details ''task_name'' = Some n"
      and "map_of details ''task_uuid'' = Some u"
  shows "task_receiver FINISH_STATES lg state details =
           (None, lg\<lparr>emitted := emitted lg @
              [\<lparr>level = (if state = FAILURE then WARNING else DEBUG),
                message =
                  (if isEnabledFor lg DEBUG \<or> state = FAILURE
                   then ''Task '' @ quoted (text_type n) @ '' ('' @ text_type u
                        @ '') transitioned into state '' @ quoted state
                        @ '' with result '' @ text_type r
                   else ''Task '' @ quoted (text_type n) @ '' ('' @ text_type u
                        @ '') transitioned into state '' @ quoted state),
                exc = NoExcInfo\<rparr>]\<rparr>)"
proof -
  note msg = task_transitioned_Inr [OF assms(4) assms(5)]
  have res: "dict_get details ''result'' = r" "contains details ''result''"
    using assms(1) by (simp_all add: dict_get_def contains_def)
  show ?thesis
  proof (cases r)
    case (Failure exc_info t)
    with assms(3) show ?thesis by simp
  qed (use assms(2) res in
        \<open>simp_all add: task_receiver_def task_transitioned_with_result_def logger_log_def msg\<close>)
qed

theorem task_plain_result_witness:
  "map_of [(''task_name'', PyStr ''create''), (''task_uuid'', PyStr ''u1''),
           (''result'', PyStr ''42'')] ''result'' = Some (PyStr ''42'')
   \<and> SUCCESS \<in> set [FAILURE, SUCCESS]
   \<and> \<not> isinstance_Failure (PyStr ''42'')
   \<and> task_receiver [FAILURE, SUCCESS] \<lparr>isEnabledFor = (\<lambda>lvl. False), emitted = []\<rparr> SUCCESS
        [(''task_name'', PyStr ''create''), (''task_uuid'', PyStr ''u1''),
         (''result'', PyStr ''42'')]
      = (None, \<lparr>isEnabledFor = (\<lambda>lvl. False), emitted =
           [\<lparr>level = DEBUG,
             message = ''Task 'create' (u1) transitioned into state '' @ quoted ''SUCCESS'',
             exc = NoExcInfo\<rparr>]\<rparr>)"
  using task_plain_result [of "[(''task_name'', PyStr ''create''), (''task_uuid'', PyStr ''u1''),
           (''result'', PyStr ''42'')]" "PyStr ''42''" SUCCESS "[FAILURE, SUCCESS]"
           "PyStr ''create''" "PyStr ''u1''" "\<lparr>isEnabledFor = (\<lambda>lvl. False), emitted = []\<rparr>"]
  by (simp add: SUCCESS_def FAILURE_def quoted_def)


text \<open>
  C2: a task event whose details contain a result, whose state is in the finish-state
  subset and whose result is a \<^verbatim>\<open>Failure\<close> should emit exactly one record at
  \<open>WARNING\<close>, whatever \<^verbatim>\<open>isEnabledFor\<close> answers.  The receiver does not: for the event
  below, whose \<^verbatim>\<open>Failure\<close> has no \<^verbatim>\<open>exc_info\<close>, \<^verbatim>\<open>tuple(result.exc_info)\<close> raises
  \<^verbatim>\<open>TypeError\<close> before the logger is called, the error reaches the engine and no record is
  emitted.
\<close>

theorem task_failure_without_exc_info:
  "task_receiver [FAILURE, SUCCESS] \<lparr>isEnabledFor = (\<le>) 10, emitted = []\<rparr> FAILURE
     [(''task_name'', PyStr ''create''), (''task_uuid'', PyStr ''u1''),
      (''result'', Failure None ''Failure: IOError: disk full'')]
   = (Some (TypeError (quoted ''NoneType'' @ '' object is not iterable'')),
      \<lparr>isEnabledFor = (\<le>) 10, emitted = []\<rparr>)"
  by (simp add: task_receiver_def task_transitioned_def getitem_def dict_get_def contains_def
                tuple_of_def FAILURE_def)

text \<open>
  Where the \<^verbatim>\<open>Failure\<close> does carry its \<^verbatim>\<open>exc_info\<close>, the receiver emits exactly one record,
  at \<open>WARNING\<close>; its message is made of the task name, uuid and state, the \<^verbatim>\<open>exc_info\<close> is
  attached to the record and is no part of the message, and none of this depends on the
  answer \<open>q\<close> of \<^verbatim>\<open>isEnabledFor\<close>.
\<close>

lemma task_failure_with_exc_info:
  assumes "map_of details ''result'' = Some (Failure (Some ei) t)"
      and "state \<in> set FINISH_STATES"
      and "map_of details ''task_name'' = Some n"
      and "map_of details ''task_uuid'' = Some u"
  shows "task_receiver FINISH_STATES (lg\<lparr>isEnabledFor := q\<rparr>) state details =
           (None, lg\<lparr>isEnabledFor := q,
                     emitted := emitted lg @
                       [\<lparr>level = WARNING,
                         message = ''Task '' @ quoted (text_type n) @ '' ('' @ text_type u
                                   @ '') transitioned into state '' @ quoted state,
                         exc = ExcInfo ei\<rparr>]\<rparr>)"
proof -
  have "dict_get details ''result'' = Failure (Some ei) t" "contains details ''result''"
    using assms(1) by (simp_all add: dict_get_def contains_def)
  then show ?thesis
    using assms(2)
    by (simp add: task_receiver_def logger_warn_def tuple_of_def
                  task_transitioned_Inr [OF assms(3) assms(4)])
qed

lemma task_failure_with_exc_info_example:
  "task_receiver [FAILURE, SUCCESS] \<lparr>isEnabledFor = (\<le>) 50, emitted = []\<rparr> FAILURE
        [(''task_name'', PyStr ''create''), (''task_uuid'', PyStr ''u1''),
         (''result'', Failure (Some (''IOError'', ''disk full'', ''tb'')) ''Failure: IOError'')]
      = (None, \<lparr>isEnabledFor = (\<le>) 50, emitted =
           [\<lparr>level = WARNING,
             message = ''Task 'create' (u1) transitioned into state '' @ quoted ''FAILURE'',
             exc = ExcInfo (''IOError'', ''disk full'', ''tb'')\<rparr>]\<rparr>)"
  using task_failure_with_exc_info
          [where details = "[(''task_name'', PyStr ''create''), (''task_uuid'', PyStr ''u1''),
                (''result'',
                 Failure (Some (''IOError'', ''disk full'', ''tb'')) ''Failure: IOError'')]"
             and ei = "(''IOError'', ''disk full'', ''tb'')" and t = "''Failure: IOError''"
             and state = FAILURE and FINISH_STATES = "[FAILURE, SUCCESS]"
             and n = "PyStr ''create''" and u = "PyStr ''u1''"
             and lg = "\<lparr>isEnabledFor = (\<le>) 50, emitted = []\<rparr>"
             and q = "(\<le>) 50"]
  by (simp add: FAILURE_def quoted_def)

text \<open>
  C3: a task event whose details contain no result, or whose state is not in the
  finish-state subset, emits one record, at \<open>WARNING\<close> if the state is \<open>REVERTING\<close> or
  \<open>RETRYING\<close> and at \<open>DEBUG\<close> otherwise; its message is made of the task name, uuid and
  state only, and nothing is attached.
\<close>

theorem task_other_transition:
  assumes "map_of details ''result'' = None \<or> state \<notin> set FINISH_STATES"
      and "map_of details ''task_name'' = Some n"
      and "map_of details ''task_uuid'' = Some u"
  shows "task_receiver FINISH_STATES lg state details =
           (None, lg\<lparr>emitted := emitted lg @
              [\<lparr>level = (if state = REVERTING \<or> state = RETRYING then WARNING else DEBUG),
                message = ''Task '' @ quoted (text_type n) @ '' ('' @ text_type u
                          @ '') transitioned into state '' @ quoted state,
                exc = NoExcInfo\<rparr>]\<rparr>)"
proof -
  have branch: "(contains details ''result'' \<and> state \<in> set FINISH_STATES) = False"
    using assms(1) by (auto simp add: contains_def)
  show ?thesis
    by (simp add: task_receiver_def branch logger_log_def
                  task_transitioned_Inr [OF assms(2) assms(3)])
qed

theorem task_other_transition_witness:
  "(map_of [(''task_name'', PyStr ''create''), (''task_uuid'', PyStr ''u1'')] ''result'' = None
    \<or> REVERTING \<notin> set [FAILURE, SUCCESS])
   \<and> task_receiver [FAILURE, SUCCESS] \<lparr>isEnabledFor = (\<lambda>lvl. True), emitted = []\<rparr> REVERTING
        [(''task_name'', PyStr ''create''), (''task_uuid'', PyStr ''u1'')]
      = (None, \<lparr>isEnabledFor = (\<lambda>lvl. True), emitted =
           [\<lparr>level = WARNING,
             message = ''Task 'create' (u1) transitioned into state '' @ quoted ''REVERTING'',
             exc = NoExcInfo\<rparr>]\<rparr>)
   \<and> (map_of [(''task_name'', PyStr ''create''), (''task_uuid'', PyStr ''u1''),
               (''result'', PyStr ''42'')] ''result'' = None
      \<or> RUNNING \<notin> set [FAILURE, SUCCESS])
   \<and> task_receiver [FAILURE, SUCCESS] \<lparr>isEnabledFor = (\<lambda>lvl. True), emitted = []\<rparr> RUNNING
        [(''task_name'', PyStr ''create''), (''task_uuid'', PyStr ''u1''),
         (''result'', PyStr ''42'')]
      = (None, \<lparr>isEnabledFor = (\<lambda>lvl. True), emitted =
           [\<lparr>level = DEBUG,
             message = ''Task 'create' (u1) transitioned into state '' @ quoted ''RUNNING'',
             exc = NoExcInfo\<rparr>]\<rparr>)"
  using task_other_transition
          [of "[(''task_name'', PyStr ''create''), (''task_uuid'', PyStr ''u1'')]"
              REVERTING "[FAILURE, SUCCESS]" "PyStr ''create''" "PyStr ''u1''"
              "\<lparr>isEnabledFor = (\<lambda>lvl. True), emitted = []\<rparr>"]
        task_other_transition
          [of "[(''task_name'', PyStr ''create''), (''task_uuid'', PyStr ''u1''),
                (''result'', PyStr ''42'')]"
              RUNNING "[FAILURE, SUCCESS]" "PyStr ''create''" "PyStr ''u1''"
              "\<lparr>isEnabledFor = (\<lambda>lvl. True), emitted = []\<rparr>"]
  by (simp add: FAILURE_def SUCCESS_def REVERTING_def RETRYING_def RUNNING_def quoted_def)

subsection \<open>Flow events\<close>

text \<open>
  C4 (amended): a flow event emits one record, at \<open>WARNING\<close> if the new state is
  \<open>FAILURE\<close> or \<open>REVERTED\<close> and at \<open>DEBUG\<close> otherwise, whatever the old state; the message
  is made of the flow name, the flow uuid, the new state and the old state, and where
  \<^verbatim>\<open>old_state\<close> is absent from the details the text \<^verbatim>\<open>None\<close>, the rendering of what
  \<^verbatim>\<open>details.get('old_state')\<close> returns, stands in its place.
\<close>

theorem flow_receiver_spec:
  assumes "map_of details ''flow_name'' = Some n"
      and "map_of details ''flow_uuid'' = Some u"
  shows "flow_receiver lg state details =
           (None, lg\<lparr>emitted := emitted lg @
              [\<lparr>level = (if state = FAILURE \<or> state = REVERTED then WARNING else DEBUG),
                message = ''Flow '' @ quoted (text_type n) @ '' ('' @ text_type u
                          @ '') transitioned into state '' @ quoted state
                          @ '' from state ''
                          @ quoted (case map_of details ''old_state'' of
                                      None \<Rightarrow> ''None''
                                    | Some old_state \<Rightarrow> text_type old_state),
                exc = NoExcInfo\<rparr>]\<rparr>)"
  by (simp add: flow_receiver_def getitem_Some [OF assms(1)] getitem_Some [OF assms(2)]
                logger_log_def dict_get_def split: option.split)

theorem flow_receiver_spec_witness:
  "map_of [(''flow_name'', PyStr ''create''), (''flow_uuid'', PyStr ''f1''),
           (''old_state'', PyStr ''RUNNING'')] ''flow_name'' = Some (PyStr ''create'')
   \<and> flow_receiver \<lparr>isEnabledFor = (\<le>) 10, emitted = []\<rparr> FAILURE
        [(''flow_name'', PyStr ''create''), (''flow_uuid'', PyStr ''f1''),
         (''old_state'', PyStr ''RUNNING'')]
      = (None, \<lparr>isEnabledFor = (\<le>) 10, emitted =
           [\<lparr>level = WARNING,
             message = ''Flow 'create' (f1) transitioned into state 'FAILURE' from state ''
                       @ quoted ''RUNNING'',
             exc = NoExcInfo\<rparr>]\<rparr>)
   \<and> flow_receiver \<lparr>isEnabledFor = (\<le>) 10, emitted = []\<rparr> RUNNING
        [(''flow_name'', PyStr ''create''), (''flow_uuid'', PyStr ''f1'')]
      = (None, \<lparr>isEnabledFor = (\<le>) 10, emitted =
           [\<lparr>level = DEBUG,
             message = ''Flow 'create' (f1) transitioned into state 'RUNNING' from state ''
                       @ quoted ''None'',
             exc = NoExcInfo\<rparr>]\<rparr>)"
  using flow_receiver_spec
          [where details = "[(''flow_name'', PyStr ''create''), (''flow_uuid'', PyStr ''f1''),
                             (''old_state'', PyStr ''RUNNING'')]"
             and n = "PyStr ''create''" and u = "PyStr ''f1''" and state = FAILURE
             and lg = "\<lparr>isEnabledFor = (\<le>) 10, emitted = []\<rparr>"]
        flow_receiver_spec
          [where details = "[(''flow_name'', PyStr ''create''), (''flow_uuid'', PyStr ''f1'')]"
             and n = "PyStr ''create''" and u = "PyStr ''f1''" and state = RUNNING
             and lg = "\<lparr>isEnabledFor = (\<le>) 10, emitted = []\<rparr>"]
  by (simp add: FAILURE_def REVERTED_def RUNNING_def quoted_def)

text \<open>
  The message of a flow event without \<^verbatim>\<open>old_state\<close> ends in \<^verbatim>\<open>from state 'None'\<close>; the
  word \<^verbatim>\<open>unknown\<close> occurs nowhere in it.
\<close>

theorem flow_old_state_unknown_counterexample:
  "map_of [(''flow_name'', PyStr ''create''), (''flow_uuid'', PyStr ''f1'')] ''old_state'' = None
   \<and> map message (emitted (snd (flow_receiver \<lparr>isEnabledFor = (\<le>) 10, emitted = []\<rparr> RUNNING
          [(''flow_name'', PyStr ''create''), (''flow_uuid'', PyStr ''f1'')])))
       = [''Flow 'create' (f1) transitioned into state 'RUNNING' from state 'None''
          @ [CHR 0x27]]
   \<and> \<not> sublist ''unknown''
         (''Flow 'create' (f1) transitioned into state 'RUNNING' from state 'None''
          @ [CHR 0x27])"
proof (intro conjI)
  show "\<not> sublist ''unknown''
         (''Flow 'create' (f1) transitioned into state 'RUNNING' from state 'None''
          @ [CHR 0x27])"
    by code_simp
qed (simp_all add: flow_receiver_def getitem_def dict_get_def logger_log_def quoted_def
                   RUNNING_def)

subsection \<open>Pretty names\<close>




subsection \<open>Status recovery\<close>

text \<open>
  C6: for every context, volume id, reason, store and starting state,
  \<^verbatim>\<open>error_out_volume\<close> calls \<^verbatim>\<open>db.volume_update\<close> exactly once, with the context, the
  volume id and the update \<^verbatim>\<open>{'status': 'error'}\<close>.  The cleaned reason appears in the
  debug line that precedes the call; whatever is logged after that line, and the way the
  function ends, are the same for any other reason.
\<close>

theorem error_out_volume_update:
  "db_calls (snd (error_out_volume ctx db volume_id reason w))
     = db_calls w @ [(ctx, volume_id, [(''status'', PyStr ''error'')])]
   \<and> take (Suc (length (emitted (LOG w))))
          (emitted (LOG (snd (error_out_volume ctx db volume_id reason w))))
     = emitted (LOG w) @
         [\<lparr>level = DEBUG,
           message = ''Updating volume: '' @ text_type volume_id
                     @ '' with {'status': 'error'} due to: '' @ clean_reason reason,
           exc = NoExcInfo\<rparr>]
   \<and> drop (Suc (length (emitted (LOG w))))
          (emitted (LOG (snd (error_out_volume ctx db volume_id reason w))))
     = drop (Suc (length (emitted (LOG w))))
          (emitted (LOG (snd (error_out_volume ctx db volume_id other_reason w))))
   \<and> fst (error_out_volume ctx db volume_id reason w)
     = fst (error_out_volume ctx db volume_id other_reason w)"
  by (simp add: error_out_volume_def Let_def LOG_debug_def LOG_exception_def volume_update_def
                logger_log_def update_repr_def split: option.split)

text \<open>
  On \<^verbatim>\<open>vol-1\<close> with no reason and a store that accepts every update.
\<close>

theorem vol_1_absent_reason_example:
  "db_calls (snd (error_out_volume (PyObj ''ctx'') Map.empty (PyStr ''vol-1'') PyNone
                    \<lparr>LOG = \<lparr>isEnabledFor = (\<le>) 10, emitted = []\<rparr>, db_calls = []\<rparr>))
     = [(PyObj ''ctx'', PyStr ''vol-1'', [(''status'', PyStr ''error'')])]
   \<and> map message (emitted (LOG (snd (error_out_volume (PyObj ''ctx'') Map.empty (PyStr ''vol-1'')
                    PyNone \<lparr>LOG = \<lparr>isEnabledFor = (\<le>) 10, emitted = []\<rparr>, db_calls = []\<rparr>))))
     = [''Updating volume: vol-1 with {'status': 'error'} due to: ???'']"
  by (simp add: error_out_volume_def Let_def LOG_debug_def volume_update_def logger_log_def
                update_repr_def clean_reason_def)

lemma error_out_volume_store_raises:
  assumes "db (ctx, volume_id, [(''status'', PyStr ''error'')]) = Some e"
  shows "error_out_volume ctx db volume_id reason w =
      (let w2 = volume_update
                  (LOG_debug w (''Updating volume: '' @ text_type volume_id @ '' with ''
                                @ update_repr @ '' due to: '' @ clean_reason reason))
                  (ctx, volume_id, [(''status'', PyStr ''error'')])
       in if is_CinderException e
          then (None, LOG_exception w2 (''Failed updating volume '' @ text_type volume_id
                                        @ '' with '' @ update_repr) e)
          else (Some e, w2))"
  using assms by (simp add: error_out_volume_def Let_def)

lemma restore_source_status_store_raises:
  assumes "map_of spec ''type'' = Some (PyStr ''source_vol'')"
      and "map_of spec ''source_volid'' = Some source_volid"
      and "map_of spec ''source_volstatus'' = Some source_status"
      and "db (ctx, source_volid, [(''status'', source_status)]) = Some e"
  shows "restore_source_status ctx db (Some spec) w =
      (let w2 = volume_update
                  (LOG_debug w (''Restoring source '' @ text_type source_volid
                                @ '' status to '' @ text_type source_status))
                  (ctx, source_volid, [(''status'', source_status)])
       in if is_CinderException e
          then (None, LOG_exception w2
                        (''Failed setting source volume '' @ text_type source_volid
                         @ '' back to its initial '' @ text_type source_status
                         @ '' status'') e)
          else (Some e, w2))"
proof -
  have nonempty: "spec \<noteq> []"
    using assms(1) by auto
  have ty: "dict_get spec ''type'' = PyStr ''source_vol''"
    using assms(1) by (simp add: dict_get_def)
  show ?thesis
    using assms(4) nonempty ty
    by (simp add: restore_source_status_def Let_def
                  getitem_Some [OF assms(2)] getitem_Some [OF assms(3)])
qed

text \<open>
  C7 (amended): each helper, when its own store call raises \<open>e\<close>: if \<open>e\<close> is a
  \<^verbatim>\<open>CinderException\<close>, the helper emits one record at \<open>ERROR\<close> with \<open>e\<close> attached
  (\<^verbatim>\<open>LOG.exception\<close>) after its debug line and returns normally; if \<open>e\<close> is of any other
  class, \<open>e\<close> itself reaches the caller and nothing is logged after the debug line.  In
  both cases the store has been called exactly once.  The first conjunct is about
  \<^verbatim>\<open>error_out_volume\<close> on a store \<open>db\<close>, the second about \<^verbatim>\<open>restore_source_status\<close> on a
  store \<open>db'\<close>; neither supposes anything of the other helper or of the other store.
\<close>

theorem store_error_handling:
  "(db (ctx, volume_id, [(''status'', PyStr ''error'')]) = Some e \<longrightarrow>
      fst (error_out_volume ctx db volume_id reason w)
        = (if is_CinderException e then None else Some e)
      \<and> emitted (LOG (snd (error_out_volume ctx db volume_id reason w)))
        = emitted (LOG w) @
            [\<lparr>level = DEBUG,
              message = ''Updating volume: '' @ text_type volume_id
                        @ '' with {'status': 'error'} due to: '' @ clean_reason reason,
              exc = NoExcInfo\<rparr>] @
            (if is_CinderException e
             then [\<lparr>level = ERROR,
                    message = ''Failed updating volume '' @ text_type volume_id
                              @ '' with {'status': 'error'}'',
                    exc = Handled e\<rparr>]
             else [])
      \<and> db_calls (snd (error_out_volume ctx db volume_id reason w))
        = db_calls w @ [(ctx, volume_id, [(''status'', PyStr ''error'')])])
   \<and> (map_of spec ''type'' = Some (PyStr ''source_vol'')
       \<and> map_of spec ''source_volid'' = Some source_volid
       \<and> map_of spec ''source_volstatus'' = Some source_status
       \<and> db' (ctx', source_volid, [(''status'', source_status)]) = Some e' \<longrightarrow>
      fst (restore_source_status ctx' db' (Some spec) w')
        = (if is_CinderException e' then None else Some e')
      \<and> emitted (LOG (snd (restore_source_status ctx' db' (Some spec) w')))
        = emitted (LOG w') @
            [\<lparr>level = DEBUG,
              message = ''Restoring source '' @ text_type source_volid
                        @ '' status to '' @ text_type source_status,
              exc = NoExcInfo\<rparr>] @
            (if is_CinderException e'
             then [\<lparr>level = ERROR,
                    message = ''Failed setting source volume '' @ text_type source_volid
                              @ '' back to its initial '' @ text_type source_status
                              @ '' status'',
                    exc = Handled e'\<rparr>]
             else [])
      \<and> db_calls (snd (restore_source_status ctx' db' (Some spec) w'))
        = db_calls w' @ [(ctx', source_volid, [(''status'', source_status)])])"
proof (intro conjI impI)
  assume raises: "db (ctx, volume_id, [(''status'', PyStr ''error'')]) = Some e"
  note error_out =
    error_out_volume_store_raises
      [where db = db and ctx = ctx and volume_id = volume_id and e = e, OF raises]
  show "fst (error_out_volume ctx db volume_id reason w)
          = (if is_CinderException e then None else Some e)"
    unfolding error_out by (simp add: Let_def)
  show "emitted (LOG (snd (error_out_volume ctx db volume_id reason w)))
        = emitted (LOG w) @
            [\<lparr>level = DEBUG,
              message = ''Updating volume: '' @ text_type volume_id
                        @ '' with {'status': 'error'} due to: '' @ clean_reason reason,
              exc = NoExcInfo\<rparr>] @
            (if is_CinderException e
             then [\<lparr>level = ERROR,
                    message = ''Failed updating volume '' @ text_type volume_id
                              @ '' with {'status': 'error'}'',
                    exc = Handled e\<rparr>]
             else [])"
    unfolding error_out
    by (simp add: Let_def LOG_debug_def LOG_exception_def volume_update_def logger_log_def
                  update_repr_def)
  show "db_calls (snd (error_out_volume ctx db volume_id reason w))
        = db_calls w @ [(ctx, volume_id, [(''status'', PyStr ''error'')])]"
    unfolding error_out
    by (simp add: Let_def LOG_debug_def LOG_exception_def volume_update_def)
next
  assume applicable: "map_of spec ''type'' = Some (PyStr ''source_vol'')
       \<and> map_of spec ''source_volid'' = Some source_volid
       \<and> map_of spec ''source_volstatus'' = Some source_status
       \<and> db' (ctx', source_volid, [(''status'', source_status)]) = Some e'"
  then have restore: "restore_source_status ctx' db' (Some spec) w' =
      (let w2 = volume_update
                  (LOG_debug w' (''Restoring source '' @ text_type source_volid
                                 @ '' status to '' @ text_type source_status))
                  (ctx', source_volid, [(''status'', source_status)])
       in if is_CinderException e'
          then (None, LOG_exception w2
                        (''Failed setting source volume '' @ text_type source_volid
                         @ '' back to its initial '' @ text_type source_status
                         @ '' status'') e')
          else (Some e', w2))"
    by (intro restore_source_status_store_raises) simp_all
  show "fst (restore_source_status ctx' db' (Some spec) w')
          = (if is_CinderException e' then None else Some e')"
    unfolding restore by (simp add: Let_def)
  show "emitted (LOG (snd (restore_source_status ctx' db' (Some spec) w')))
        = emitted (LOG w') @
            [\<lparr>level = DEBUG,
              message = ''Restoring source '' @ text_type source_volid
                        @ '' status to '' @ text_type source_status,
              exc = NoExcInfo\<rparr>] @
            (if is_CinderException e'
             then [\<lparr>level = ERROR,
                    message = ''Failed setting source volume '' @ text_type source_volid
                              @ '' back to its initial '' @ text_type source_status
                              @ '' status'',
                    exc = Handled e'\<rparr>]
             else [])"
    unfolding restore
    by (simp add: Let_def LOG_debug_def LOG_exception_def volume_update_def logger_log_def)
  show "db_calls (snd (restore_source_status ctx' db' (Some spec) w'))
        = db_calls w' @ [(ctx', source_volid, [(''status'', source_status)])]"
    unfolding restore
    by (simp add: Let_def LOG_debug_def LOG_exception_def volume_update_def)
qed

theorem store_error_handling_witness:
  "[(PyObj ''ctx'', PyStr ''vol-1'', [(''status'', PyStr ''error'')])
       \<mapsto> CinderException ''db down'']
     (PyObj ''ctx'', PyStr ''vol-1'', [(''status'', PyStr ''error'')])
     = Some (CinderException ''db down'')
   \<and> fst (error_out_volume (PyObj ''ctx'')
            [(PyObj ''ctx'', PyStr ''vol-1'', [(''status'', PyStr ''error'')])
               \<mapsto> CinderException ''db down'']
            (PyStr ''vol-1'') PyNone
            \<lparr>LOG = \<lparr>isEnabledFor = (\<le>) 10, emitted = []\<rparr>, db_calls = []\<rparr>) = None
   \<and> map level (emitted (LOG (snd (error_out_volume (PyObj ''ctx'')
            [(PyObj ''ctx'', PyStr ''vol-1'', [(''status'', PyStr ''error'')])
               \<mapsto> CinderException ''db down'']
            (PyStr ''vol-1'') PyNone
            \<lparr>LOG = \<lparr>isEnabledFor = (\<le>) 10, emitted = []\<rparr>, db_calls = []\<rparr>))))
       = [DEBUG, ERROR]
   \<and> [(PyObj ''ctx'', PyStr ''src-1'', [(''status'', PyStr ''available'')])
         \<mapsto> OtherError ''socket closed'']
       (PyObj ''ctx'', PyStr ''src-1'', [(''status'', PyStr ''available'')])
     = Some (OtherError ''socket closed'')
   \<and> fst (restore_source_status (PyObj ''ctx'')
            [(PyObj ''ctx'', PyStr ''src-1'', [(''status'', PyStr ''available'')])
               \<mapsto> OtherError ''socket closed'']
            (Some [(''type'', PyStr ''source_vol''), (''source_volid'', PyStr ''src-1''),
                   (''source_volstatus'', PyStr ''available'')])
            \<lparr>LOG = \<lparr>isEnabledFor = (\<le>) 10, emitted = []\<rparr>, db_calls = []\<rparr>)
       = Some (OtherError ''socket closed'')
   \<and> map level (emitted (LOG (snd (restore_source_status (PyObj ''ctx'')
            [(PyObj ''ctx'', PyStr ''src-1'', [(''status'', PyStr ''available'')])
               \<mapsto> OtherError ''socket closed'']
            (Some [(''type'', PyStr ''source_vol''), (''source_volid'', PyStr ''src-1''),
                   (''source_volstatus'', PyStr ''available'')])
            \<lparr>LOG = \<lparr>isEnabledFor = (\<le>) 10, emitted = []\<rparr>, db_calls = []\<rparr>))))
       = [DEBUG]
   \<and> db_calls (snd (restore_source_status (PyObj ''ctx'')
            [(PyObj ''ctx'', PyStr ''src-1'', [(''status'', PyStr ''available'')])
               \<mapsto> OtherError ''socket closed'']
            (Some [(''type'', PyStr ''source_vol''), (''source_volid'', PyStr ''src-1''),
                   (''source_volstatus'', PyStr ''available'')])
            \<lparr>LOG = \<lparr>isEnabledFor = (\<le>) 10, emitted = []\<rparr>, db_calls = []\<rparr>))
       = [(PyObj ''ctx'', PyStr ''src-1'', [(''status'', PyStr ''available'')])]
   \<and> fst (restore_source_status (PyObj ''ctx'')
            [(PyObj ''ctx'', PyStr ''src-1'', [(''status'', PyStr ''available'')])
               \<mapsto> CinderException ''db down'']
            (Some [(''type'', PyStr ''source_vol''), (''source_volid'', PyStr ''src-1''),
                   (''source_volstatus'', PyStr ''available'')])
            \<lparr>LOG = \<lparr>isEnabledFor = (\<le>) 10, emitted = []\<rparr>, db_calls = []\<rparr>)
       = None
   \<and> fst (error_out_volume (PyObj ''ctx'')
            [(PyObj ''ctx'', PyStr ''vol-1'', [(''status'', PyStr ''error'')])
               \<mapsto> OtherError ''socket closed'']
            (PyStr ''vol-1'') PyNone
            \<lparr>LOG = \<lparr>isEnabledFor = (\<le>) 10, emitted = []\<rparr>, db_calls = []\<rparr>)
       = Some (OtherError ''socket closed'')"
  using store_error_handling
          [where db = "[(PyObj ''ctx'', PyStr ''vol-1'', [(''status'', PyStr ''error'')])
                          \<mapsto> CinderException ''db down'']"
             and ctx = "PyObj ''ctx''" and volume_id = "PyStr ''vol-1''"
             and e = "CinderException ''db down''" and reason = PyNone
             and w = "\<lparr>LOG = \<lparr>isEnabledFor = (\<le>) 10, emitted = []\<rparr>, db_calls = []\<rparr>"
             and db' = "[(PyObj ''ctx'', PyStr ''src-1'', [(''status'', PyStr ''available'')])
                          \<mapsto> OtherError ''socket closed'']"
             and ctx' = "PyObj ''ctx''"
             and spec = "[(''type'', PyStr ''source_vol''), (''source_volid'', PyStr ''src-1''),
                          (''source_volstatus'', PyStr ''available'')]"
             and source_volid = "PyStr ''src-1''" and source_status = "PyStr ''available''"
             and e' = "OtherError ''socket closed''"
             and w' = "\<lparr>LOG = \<lparr>isEnabledFor = (\<le>) 10, emitted = []\<rparr>, db_calls = []\<rparr>"]
        store_error_handling
          [where db = "[(PyObj ''ctx'', PyStr ''vol-1'', [(''status'', PyStr ''error'')])
                          \<mapsto> OtherError ''socket closed'']"
             and ctx = "PyObj ''ctx''" and volume_id = "PyStr ''vol-1''"
             and e = "OtherError ''socket closed''" and reason = PyNone
             and w = "\<lparr>LOG = \<lparr>isEnabledFor = (\<le>) 10, emitted = []\<rparr>, db_calls = []\<rparr>"
             and db' = "[(PyObj ''ctx'', PyStr ''src-1'', [(''status'', PyStr ''available'')])
                          \<mapsto> CinderException ''db down'']"
             and ctx' = "PyObj ''ctx''"
             and spec = "[(''type'', PyStr ''source_vol''), (''source_volid'', PyStr ''src-1''),
                          (''source_volstatus'', PyStr ''available'')]"
             and source_volid = "PyStr ''src-1''" and source_status = "PyStr ''available''"
             and e' = "CinderException ''db down''"
             and w' = "\<lparr>LOG = \<lparr>isEnabledFor = (\<le>) 10, emitted = []\<rparr>, db_calls = []\<rparr>"]
  by simp

text \<open>
  When the store raises a \<^verbatim>\<open>CinderException\<close>, the records emitted are the debug line
  and one at \<open>ERROR\<close>; none is at \<open>WARNING\<close>.
\<close>

theorem store_error_logged_as_warning_counterexample:
  "fst (error_out_volume (PyObj ''ctx'')
          [(PyObj ''ctx'', PyStr ''vol-1'', [(''status'', PyStr ''error'')])
             \<mapsto> CinderException ''db down'']
          (PyStr ''vol-1'') PyNone
          \<lparr>LOG = \<lparr>isEnabledFor = (\<le>) 10, emitted = []\<rparr>, db_calls = []\<rparr>) = None
   \<and> map level (emitted (LOG (snd (error_out_volume (PyObj ''ctx'')
          [(PyObj ''ctx'', PyStr ''vol-1'', [(''status'', PyStr ''error'')])
             \<mapsto> CinderException ''db down'']
          (PyStr ''vol-1'') PyNone
          \<lparr>LOG = \<lparr>isEnabledFor = (\<le>) 10, emitted = []\<rparr>, db_calls = []\<rparr>))))
       = [DEBUG, ERROR]
   \<and> WARNING \<notin> set [DEBUG, ERROR]"
  by (simp add: error_out_volume_def Let_def LOG_debug_def LOG_exception_def volume_update_def
                logger_log_def DEBUG_def WARNING_def ERROR_def)

text \<open>
  C8: \<^verbatim>\<open>restore_source_status\<close> returns at once, with nothing logged and the store not
  called, when \<^verbatim>\<open>volume_spec\<close> is absent or its \<^verbatim>\<open>type\<close> is not \<^verbatim>\<open>source_vol\<close>; when the
  type is \<^verbatim>\<open>source_vol\<close> and the spec holds \<^verbatim>\<open>source_volid\<close> and \<^verbatim>\<open>source_volstatus\<close>, it
  calls \<^verbatim>\<open>db.volume_update(context, source_volid, {'status': source_status})\<close> exactly
  once.
\<close>

theorem restore_source_status_spec:
  "restore_source_status ctx db None w = (None, w)
   \<and> (map_of spec ''type'' \<noteq> Some (PyStr ''source_vol'') \<longrightarrow>
        restore_source_status ctx db (Some spec) w = (None, w))
   \<and> (map_of spec ''type'' = Some (PyStr ''source_vol'')
        \<and> map_of spec ''source_volid'' = Some source_volid
        \<and> map_of spec ''source_volstatus'' = Some source_status \<longrightarrow>
        db_calls (snd (restore_source_status ctx db (Some spec) w))
          = db_calls w @ [(ctx, source_volid, [(''status'', source_status)])])"
proof (intro conjI impI)
  show "restore_source_status ctx db None w = (None, w)"
    by (simp add: restore_source_status_def)
next
  assume "map_of spec ''type'' \<noteq> Some (PyStr ''source_vol'')"
  then have "dict_get spec ''type'' \<noteq> PyStr ''source_vol''"
    by (auto simp add: dict_get_def split: option.split)
  then show "restore_source_status ctx db (Some spec) w = (None, w)"
    by (simp add: restore_source_status_def)
next
  assume a: "map_of spec ''type'' = Some (PyStr ''source_vol'')
        \<and> map_of spec ''source_volid'' = Some source_volid
        \<and> map_of spec ''source_volstatus'' = Some source_status"
  then have "spec \<noteq> []" "dict_get spec ''type'' = PyStr ''source_vol''"
    by (auto simp add: dict_get_def)
  moreover have "getitem spec ''source_volid'' = Inr source_volid"
       "getitem spec ''source_volstatus'' = Inr source_status"
    using a by (simp_all add: getitem_Some)
  ultimately show "db_calls (snd (restore_source_status ctx db (Some spec) w))
          = db_calls w @ [(ctx, source_volid, [(''status'', source_status)])]"
    by (simp add: restore_source_status_def Let_def LOG_debug_def LOG_exception_def
                  volume_update_def split: option.split)
qed

theorem restore_source_status_spec_witness:
  "map_of [(''type'', PyStr ''raw'')] ''type'' \<noteq> Some (PyStr ''source_vol'')
   \<and> restore_source_status (PyObj ''ctx'') Map.empty (Some [(''type'', PyStr ''raw'')])
        \<lparr>LOG = \<lparr>isEnabledFor = (\<le>) 10, emitted = []\<rparr>, db_calls = []\<rparr>
      = (None, \<lparr>LOG = \<lparr>isEnabledFor = (\<le>) 10, emitted = []\<rparr>, db_calls = []\<rparr>)
   \<and> map_of [(''type'', PyStr ''source_vol''), (''source_volid'', PyStr ''src-1''),
              (''source_volstatus'', PyStr ''available'')] ''type'' = Some (PyStr ''source_vol'')
   \<and> db_calls (snd (restore_source_status (PyObj ''ctx'') Map.empty
          (Some [(''type'', PyStr ''source_vol''), (''source_volid'', PyStr ''src-1''),
                 (''source_volstatus'', PyStr ''available'')])
          \<lparr>LOG = \<lparr>isEnabledFor = (\<le>) 10, emitted = []\<rparr>, db_calls = []\<rparr>))
      = [(PyObj ''ctx'', PyStr ''src-1'', [(''status'', PyStr ''available'')])]"
  using restore_source_status_spec
          [where spec = "[(''type'', PyStr ''raw'')]" and ctx = "PyObj ''ctx''"
             and db = Map.empty
             and w = "\<lparr>LOG = \<lparr>isEnabledFor = (\<le>) 10, emitted = []\<rparr>, db_calls = []\<rparr>"]
        restore_source_status_spec
          [where spec = "[(''type'', PyStr ''source_vol''), (''source_volid'', PyStr ''src-1''),
                          (''source_volstatus'', PyStr ''available'')]"
             and ctx = "PyObj ''ctx''" and db = Map.empty
             and source_volid = "PyStr ''src-1''" and source_status = "PyStr ''available''"
             and w = "\<lparr>LOG = \<lparr>isEnabledFor = (\<le>) 10, emitted = []\<rparr>, db_calls = []\<rparr>"]
  by simp

text \<open>
  C10: when the type of \<^verbatim>\<open>volume_spec\<close> is \<^verbatim>\<open>source_vol\<close> and \<^verbatim>\<open>source_volid\<close> or
  \<^verbatim>\<open>source_volstatus\<close> is missing, \<^verbatim>\<open>restore_source_status\<close> raises \<^verbatim>\<open>KeyError\<close> for
  the first missing key; the error reaches the caller whatever the store would do, the
  store is never called and nothing is logged.
\<close>

theorem restore_source_status_missing_key:
  assumes "map_of spec ''type'' = Some (PyStr ''source_vol'')"
      and "map_of spec ''source_volid'' = None \<or> map_of spec ''source_volstatus'' = None"
  shows "restore_source_status ctx db (Some spec) w =
           (Some (KeyError (if map_of spec ''source_volid'' = None
                            then ''source_volid'' else ''source_volstatus'')), w)"
proof -
  have "spec \<noteq> []" "dict_get spec ''type'' = PyStr ''source_vol''"
    using assms(1) by (auto simp add: dict_get_def)
  then show ?thesis
    using assms(2)
    by (auto simp add: restore_source_status_def getitem_def split: option.split)
qed


theorem restore_source_status_missing_key_witness:
  "map_of [(''type'', PyStr ''source_vol''), (''source_volid'', PyStr ''src-1'')] ''type''
     = Some (PyStr ''source_vol'')
   \<and> map_of [(''type'', PyStr ''source_vol''), (''source_volid'', PyStr ''src-1'')]
        ''source_volstatus'' = None
   \<and> restore_source_status (PyObj ''ctx'') Map.empty
        (Some [(''type'', PyStr ''source_vol''), (''source_volid'', PyStr ''src-1'')])
        \<lparr>LOG = \<lparr>isEnabledFor = (\<le>) 10, emitted = []\<rparr>, db_calls = []\<rparr>
      = (Some (KeyError ''source_volstatus''),
         \<lparr>LOG = \<lparr>isEnabledFor = (\<le>) 10, emitted = []\<rparr>, db_calls = []\<rparr>)
   \<and> restore_source_status (PyObj ''ctx'') Map.empty
        (Some [(''type'', PyStr ''source_vol'')])
        \<lparr>LOG = \<lparr>isEnabledFor = (\<le>) 10, emitted = []\<rparr>, db_calls = []\<rparr>
      = (Some (KeyError ''source_volid''),
         \<lparr>LOG = \<lparr>isEnabledFor = (\<le>) 10, emitted = []\<rparr>, db_calls = []\<rparr>)"
  using restore_source_status_missing_key
          [where spec = "[(''type'', PyStr ''source_vol''), (''source_volid'', PyStr ''src-1'')]"
             and ctx = "PyObj ''ctx''" and db = Map.empty
             and w = "\<lparr>LOG = \<lparr>isEnabledFor = (\<le>) 10, emitted = []\<rparr>, db_calls = []\<rparr>"]
        restore_source_status_missing_key
          [where spec = "[(''type'', PyStr ''source_vol'')]"
             and ctx = "PyObj ''ctx''" and db = Map.empty
             and w = "\<lparr>LOG = \<lparr>isEnabledFor = (\<le>) 10, emitted = []\<rparr>, db_calls = []\<rparr>"]
  by simp

end
